theory Spec2Isabelle
  imports Main
begin

unbundle bit_operations_syntax

section \<open>JavaScript values used by \<open>src/renderer/event.js\<close>\<close>

text \<open>
  The module stores whatever its callers hand it in the fields \<open>type\<close>, \<open>keyCode\<close>,
  \<open>inputValue\<close>, \<open>deltaX\<close> ... \<open>touchIndex\<close>, and only ever asks of such a value
  whether it is truthy. \<open>jsval\<close> is the part of the JavaScript value space those fields
  range over: \<open>undefined\<close>, \<open>null\<close>, booleans, numbers (integers and \<open>NaN\<close>), strings,
  and the built-in functions and objects reachable through \<open>Object.prototype\<close>, each
  known by its name.
\<close>

datatype jsval =
    Undefined
  | Null
  | Bool bool
  | Num int
  | NaN
  | Str string
  | Function string
  | Obj string

text \<open>The language's \<open>ToBoolean\<close>: what \<open>c ? a : b\<close>, \<open>a || b\<close> and \<open>!!a\<close> test.\<close>

fun ToBoolean :: "jsval \<Rightarrow> bool" where
  "ToBoolean Undefined = False"
| "ToBoolean Null = False"
| "ToBoolean (Bool b) = b"
| "ToBoolean (Num n) = (n \<noteq> 0)"
| "ToBoolean NaN = False"
| "ToBoolean (Str s) = (s \<noteq> [])"
| "ToBoolean (Function f) = True"
| "ToBoolean (Obj n) = True"

text \<open>\<open>a || b\<close> yields \<open>a\<close> itself when \<open>a\<close> is truthy and \<open>b\<close> otherwise.\<close>

definition logical_or :: "jsval \<Rightarrow> jsval \<Rightarrow> jsval" where
  "logical_or a b = (if ToBoolean a then a else b)"

subsection \<open>Objects as property views\<close>

text \<open>
  An object that is only read is its property view: the partial map from property names
  to the values a read returns, \<open>None\<close> for a property that is absent from the object and
  from its prototype chain. Reading an absent property yields \<open>undefined\<close>.
\<close>

type_synonym jsobj = "string \<rightharpoonup> jsval"

definition js_get :: "jsobj \<Rightarrow> string \<Rightarrow> jsval" where
  "js_get obj name = (case obj name of None \<Rightarrow> Undefined | Some v \<Rightarrow> v)"

text \<open>
  The properties every object created by an object literal inherits from
  \<open>Object.prototype\<close>: the seven of ECMAScript 5.1, section 15.2.4, and the five that
  browsers add and later editions of the standard list in Annex B
  (\<open>__proto__\<close>, which reads as \<open>Object.prototype\<close> itself on an object literal, and
  the four accessor helpers). A page that assigns further properties to
  \<open>Object.prototype\<close> enlarges the set; the module does not.
\<close>

definition Object_prototype :: jsobj where
  "Object_prototype =
     [''constructor'' \<mapsto> Function ''Object'',
      ''toString'' \<mapsto> Function ''toString'',
      ''toLocaleString'' \<mapsto> Function ''toLocaleString'',
      ''valueOf'' \<mapsto> Function ''valueOf'',
      ''hasOwnProperty'' \<mapsto> Function ''hasOwnProperty'',
      ''isPrototypeOf'' \<mapsto> Function ''isPrototypeOf'',
      ''propertyIsEnumerable'' \<mapsto> Function ''propertyIsEnumerable'',
      ''__proto__'' \<mapsto> Obj ''Object.prototype'',
      ''__defineGetter__'' \<mapsto> Function ''__defineGetter__'',
      ''__defineSetter__'' \<mapsto> Function ''__defineSetter__'',
      ''__lookupGetter__'' \<mapsto> Function ''__lookupGetter__'',
      ''__lookupSetter__'' \<mapsto> Function ''__lookupSetter__'']"

text \<open>
  The property view of \<open>{k1: v1, ...}\<close>: the own properties, and behind them those of
  \<open>Object.prototype\<close>.
\<close>

definition object_literal :: "jsobj \<Rightarrow> jsobj" where
  "object_literal own = Object_prototype ++ own"

subsection \<open>32-bit integer operators\<close>

text \<open>
  \<open>&\<close>, \<open>|\<close> and \<open><<\<close> convert their operands with \<open>ToInt32\<close>. A number argument of
  the module is an \<open>int\<close>; an omitted one is \<open>None\<close>, which \<open>ToNumber\<close> turns into \<open>NaN\<close>
  and \<open>ToInt32\<close> into 0.
\<close>

definition ToInt32 :: "int \<Rightarrow> int" where
  "ToInt32 n = signed_take_bit 31 n"

definition ToInt32_opt :: "int option \<Rightarrow> int" where
  "ToInt32_opt a = (case a of None \<Rightarrow> 0 | Some n \<Rightarrow> ToInt32 n)"

definition bitand :: "int option \<Rightarrow> int \<Rightarrow> int" where
  "bitand a b = ToInt32_opt a AND ToInt32 b"

definition bitor :: "int \<Rightarrow> int \<Rightarrow> int" where
  "bitor a b = ToInt32 a OR ToInt32 b"

definition shl :: "int \<Rightarrow> int \<Rightarrow> int" where
  "shl a b = ToInt32 (push_bit (nat (b mod 32)) (ToInt32 a))"

section \<open>The module's constants\<close>

text \<open>Lines 4-10: the table from raw mouse event names to normalized names.\<close>

definition eventTypeMap :: jsobj where
  "eventTypeMap = object_literal
     [''mouseup'' \<mapsto> Str ''pointerup'',
      ''mousedown'' \<mapsto> Str ''pointerdown'',
      ''mousemove'' \<mapsto> Str ''pointermove'',
      ''mouseover'' \<mapsto> Str ''mouseover'',
      ''mouseout'' \<mapsto> Str ''mouseout'']"

text \<open>Line 13: the modifier bits.\<close>

definition NO_MODIFIER :: int where "NO_MODIFIER = 0"
definition ALT_KEY :: int where "ALT_KEY = shl 1 0"
definition CTRL_KEY :: int where "CTRL_KEY = shl 1 1"
definition META_KEY :: int where "META_KEY = shl 1 2"
definition SHIFT_KEY :: int where "SHIFT_KEY = shl 1 3"

section \<open>KeyboardEvent\<close>

text \<open>
  Field \<open>type\<close> of the source is \<open>k_type\<close> here (\<open>p_type\<close> on a PointerEvent, \<open>m_type\<close> on
  a DOM mouse event); the other fields keep their names. The four flags are booleans:
  the constructor is the only writer and stores \<open>!!(...)\<close>.
\<close>

record KeyboardEvent =
  k_type :: jsval
  keyCode :: jsval
  inputValue :: jsval
  altKey :: bool
  ctrlKey :: bool
  metaKey :: bool
  shiftKey :: bool

text \<open>Lines 24-33. \<open>!!(modifiers & BIT)\<close> is true when the 32-bit AND is not 0.\<close>

definition new_KeyboardEvent ::
    "jsval \<Rightarrow> jsval \<Rightarrow> int option \<Rightarrow> jsval \<Rightarrow> KeyboardEvent" where
  "new_KeyboardEvent type kc modifiers targetValue =
     \<lparr> k_type = type,
       keyCode = kc,
       inputValue = targetValue,
       altKey = (bitand modifiers ALT_KEY \<noteq> 0),
       ctrlKey = (bitand modifiers CTRL_KEY \<noteq> 0),
       metaKey = (bitand modifiers META_KEY \<noteq> 0),
       shiftKey = (bitand modifiers SHIFT_KEY \<noteq> 0) \<rparr>"

text \<open>Lines 43-50. The parameter \<open>type\<close> is not read; the constructor gets \<open>undefined\<close>.\<close>

definition KeyboardEvent_fromDomEvent :: "jsval \<Rightarrow> jsobj \<Rightarrow> jsval \<Rightarrow> KeyboardEvent" where
  "KeyboardEvent_fromDomEvent type keys targetValue =
     (let modifiers =
        bitor (bitor (bitor
          (if ToBoolean (js_get keys ''altKey'') then ALT_KEY else 0)
          (if ToBoolean (js_get keys ''ctrlKey'') then CTRL_KEY else 0))
          (if ToBoolean (js_get keys ''metaKey'') then META_KEY else 0))
          (if ToBoolean (js_get keys ''shiftKey'') then SHIFT_KEY else 0)
      in new_KeyboardEvent Undefined (js_get keys ''keyCode'') (Some modifiers) targetValue)"

text \<open>Lines 57-61: the bitmask that \<open>clone\<close> rebuilds from the four flags.\<close>

definition modifiers_of :: "KeyboardEvent \<Rightarrow> int" where
  "modifiers_of this =
     bitor (bitor (bitor
       (if altKey this then ALT_KEY else 0)
       (if ctrlKey this then CTRL_KEY else 0))
       (if metaKey this then META_KEY else 0))
       (if shiftKey this then SHIFT_KEY else 0)"

text \<open>Lines 57-69. A call without argument is \<open>KeyboardEvent_clone this Undefined\<close>.\<close>

definition KeyboardEvent_clone :: "KeyboardEvent \<Rightarrow> jsval \<Rightarrow> KeyboardEvent" where
  "KeyboardEvent_clone this type =
     new_KeyboardEvent
       (logical_or type (k_type this))
       (keyCode this)
       (Some (modifiers_of this))
       (inputValue this)"

section \<open>PointerEvent\<close>

text \<open>
  The numbers of the pointer paths are coordinates, and the module only subtracts them:
  the number type is a parameter \<open>'n\<close> with a subtraction. Any object with numeric
  \<open>clientX\<close> and \<open>clientY\<close> is a \<open>clientOffsets\<close>; DOM mouse events, DOM touch points
  and PointerEvents themselves extend it.
\<close>

record 'n clientOffsets =
  clientX :: 'n
  clientY :: 'n

record 'n MouseEvent = "'n clientOffsets" +
  m_type :: string

text \<open>
  A touch point is an object with an identity: \<open>ref\<close> is its address, and \<open>===\<close> on two
  touch points compares addresses, never contents.
\<close>

record 'n Touch = "'n clientOffsets" +
  ref :: nat
  t_identifier :: jsval

record 'n TouchEvent =
  touches :: "'n Touch list"

text \<open>
  Fields \<open>x\<close> and \<open>y\<close> of the source are \<open>p_x\<close> and \<open>p_y\<close>. They are stored apart from
  \<open>stageX\<close> and \<open>stageY\<close>, as the source stores them.
\<close>

record 'n PointerEvent = "'n clientOffsets" +
  p_type :: jsval
  stageX :: 'n
  p_x :: 'n
  stageY :: 'n
  p_y :: 'n
  deltaX :: jsval
  deltaY :: jsval
  diffX :: jsval
  diffY :: jsval
  isLeft :: jsval
  isRight :: jsval
  isMiddle :: jsval
  touchId :: jsval
  touchIndex :: jsval

text \<open>Lines 81-90.\<close>

definition new_PointerEvent :: "jsval \<Rightarrow> 'n \<Rightarrow> 'n \<Rightarrow> 'n \<Rightarrow> 'n \<Rightarrow> 'n PointerEvent" where
  "new_PointerEvent type sx sy cx cy =
     \<lparr> clientX = cx, clientY = cy,
       p_type = type,
       stageX = sx, p_x = sx,
       stageY = sy, p_y = sy,
       deltaX = Undefined, deltaY = Undefined,
       diffX = Undefined, diffY = Undefined,
       isLeft = Undefined, isRight = Undefined, isMiddle = Undefined,
       touchId = Undefined, touchIndex = Undefined \<rparr>"

text \<open>Lines 100-104. The parameter \<open>domType\<close> is not read; the constructor gets \<open>undefined\<close>.\<close>

definition PointerEvent_fromDomEvent ::
    "jsval \<Rightarrow> ('n::minus, 'z) clientOffsets_scheme \<Rightarrow> 'n \<Rightarrow> 'n \<Rightarrow> 'n PointerEvent" where
  "PointerEvent_fromDomEvent domType clientOffsets stageClientX stageClientY =
     (let cx = clientX clientOffsets;
          cy = clientY clientOffsets
      in new_PointerEvent Undefined (cx - stageClientX) (cy - stageClientY) cx cy)"

text \<open>Lines 114-123.\<close>

definition PointerEvent_fromDomMouseEvent ::
    "('n::minus, 'z) MouseEvent_scheme \<Rightarrow> 'n \<Rightarrow> 'n \<Rightarrow> 'n PointerEvent" where
  "PointerEvent_fromDomMouseEvent domEvent sx sy =
     (let cx = clientX domEvent; cy = clientY domEvent
      in new_PointerEvent (js_get eventTypeMap (m_type domEvent)) (cx - sx) (cy - sy) cx cy)"

text \<open>
  Line 125: \<open>Array.prototype.indexOf\<close>, called on the touch list without a start index.
  The language defines it as a scan from position 0 that returns the first position
  whose element is strictly equal to the searched one, and -1 after the last position.
\<close>

definition strict_equals :: "('n, 'z) Touch_scheme \<Rightarrow> ('n, 'y) Touch_scheme \<Rightarrow> bool" where
  "strict_equals a b = (ref a = ref b)"

fun indexOf_from :: "nat \<Rightarrow> ('n, 'z) Touch_scheme list \<Rightarrow> ('n, 'y) Touch_scheme \<Rightarrow> int" where
  "indexOf_from k [] searchElement = - 1"
| "indexOf_from k (e # es) searchElement =
     (if strict_equals e searchElement then int k
      else indexOf_from (Suc k) es searchElement)"

definition indexOf :: "('n, 'z) Touch_scheme list \<Rightarrow> ('n, 'y) Touch_scheme \<Rightarrow> int" where
  "indexOf ts searchElement = indexOf_from 0 ts searchElement"

text \<open>Lines 126-138.\<close>

definition PointerEvent_fromDomTouch ::
    "'n::minus Touch \<Rightarrow> 'n TouchEvent \<Rightarrow> 'n \<Rightarrow> 'n \<Rightarrow> 'n PointerEvent" where
  "PointerEvent_fromDomTouch domTouch domEvent sx sy =
     (let cx = clientX domTouch; cy = clientY domTouch;
          pointerEvent = new_PointerEvent Undefined (cx - sx) (cy - sy) cx cy
      in pointerEvent
           \<lparr> touchId := t_identifier domTouch,
             touchIndex := Num (indexOf (touches domEvent) domTouch) \<rparr>)"

text \<open>
  Lines 147-166. A call without argument is \<open>PointerEvent_clone this Undefined\<close>.
  \<open>isLeft\<close> is assigned twice in the source, both times from \<open>this.isLeft\<close>.
\<close>

definition PointerEvent_clone :: "'n PointerEvent \<Rightarrow> jsval \<Rightarrow> 'n PointerEvent" where
  "PointerEvent_clone this type =
     (let clone = new_PointerEvent
            (logical_or type (p_type this))
            (p_x this)
            (p_y this)
            (clientX this)
            (clientY this)
      in clone
           \<lparr> deltaX := deltaX this,
             deltaY := deltaY this,
             diffX := diffX this,
             diffY := diffY this,
             isLeft := isLeft this,
             isRight := isRight this,
             isMiddle := isMiddle this,
             isLeft := isLeft this,
             touchId := touchId this,
             touchIndex := touchIndex this \<rparr>)"

section \<open>Events the module can produce\<close>

text \<open>The two names of each stage coordinate hold the same value.\<close>

definition aliases_agree :: "'n PointerEvent \<Rightarrow> bool" where
  "aliases_agree p = (stageX p = p_x p \<and> stageY p = p_y p)"

text \<open>
  The PointerEvents that exist at run time: what the constructor returns, with \<open>type\<close>
  and the nine optional fields assigned afterwards any number of times, as
  \<open>fromDomTouch\<close>, \<open>clone\<close> and the module's callers do.
\<close>

inductive produced :: "'n PointerEvent \<Rightarrow> bool" where
  constructed: "produced (new_PointerEvent t sx sy cx cy)"
| set_type: "produced p \<Longrightarrow> produced (p\<lparr>p_type := v\<rparr>)"
| set_deltaX: "produced p \<Longrightarrow> produced (p\<lparr>deltaX := v\<rparr>)"
| set_deltaY: "produced p \<Longrightarrow> produced (p\<lparr>deltaY := v\<rparr>)"
| set_diffX: "produced p \<Longrightarrow> produced (p\<lparr>diffX := v\<rparr>)"
| set_diffY: "produced p \<Longrightarrow> produced (p\<lparr>diffY := v\<rparr>)"
| set_isLeft: "produced p \<Longrightarrow> produced (p\<lparr>isLeft := v\<rparr>)"
| set_isRight: "produced p \<Longrightarrow> produced (p\<lparr>isRight := v\<rparr>)"
| set_isMiddle: "produced p \<Longrightarrow> produced (p\<lparr>isMiddle := v\<rparr>)"
| set_touchId: "produced p \<Longrightarrow> produced (p\<lparr>touchId := v\<rparr>)"
| set_touchIndex: "produced p \<Longrightarrow> produced (p\<lparr>touchIndex := v\<rparr>)"

section \<open>Facts about the modifier bits\<close>

lemma modifier_bits: "ALT_KEY = 1" "CTRL_KEY = 2" "META_KEY = 4" "SHIFT_KEY = 8"
  by (simp_all add: ALT_KEY_def CTRL_KEY_def META_KEY_def SHIFT_KEY_def shl_def ToInt32_def)

lemma ToInt32_bits: "ToInt32 1 = 1" "ToInt32 2 = 2" "ToInt32 4 = 4" "ToInt32 8 = 8"
  by (simp_all add: ToInt32_def)

text \<open>Testing a number against a single-bit mask reads that bit of the number.\<close>

lemma test_bit:
  assumes "n < 32"
  shows "(ToInt32 m AND push_bit n 1 \<noteq> 0) = bit m n"
proof -
  have "bit (ToInt32 m) n = bit m n"
    using assms
    by (cases "n = 31") (simp_all add: ToInt32_def bit_signed_take_bit_iff min_def)
  then show ?thesis
    using bit_iff_and_push_bit_not_eq_0 [of "ToInt32 m" n] by simp
qed

lemma flags_bits:
  "altKey (new_KeyboardEvent t k (Some m) v) = bit m 0"
  "ctrlKey (new_KeyboardEvent t k (Some m) v) = bit m 1"
  "metaKey (new_KeyboardEvent t k (Some m) v) = bit m 2"
  "shiftKey (new_KeyboardEvent t k (Some m) v) = bit m 3"
  using test_bit [of 0 m] test_bit [of 1 m] test_bit [of 2 m] test_bit [of 3 m]
  by (simp_all add: new_KeyboardEvent_def bitand_def ToInt32_opt_def modifier_bits ToInt32_bits)

lemma modifiers_of_sum:
  "modifiers_of e =
     of_bool (altKey e) + 2 * of_bool (ctrlKey e) + 4 * of_bool (metaKey e)
       + 8 * of_bool (shiftKey e)"
  by (simp add: modifiers_of_def bitor_def modifier_bits ToInt32_def)

lemma take_bit_4_sum:
  "take_bit 4 (m::int) =
     of_bool (bit m 0) + 2 * of_bool (bit m 1) + 4 * of_bool (bit m 2) + 8 * of_bool (bit m 3)"
  by (simp add: take_bit_Suc eval_nat_numeral bit_Suc bit_0 mod_2_eq_odd)

text \<open>
  Only the low four bits of a mask reach the flags: recombining the flags of a freshly
  constructed event gives the mask modulo 16.
\<close>

lemma modifiers_of_new_KeyboardEvent:
  "modifiers_of (new_KeyboardEvent t k (Some m) v) = take_bit 4 m"
  by (simp only: modifiers_of_sum flags_bits take_bit_4_sum)

lemma modifiers_of_in_range:
  "0 \<le> m \<Longrightarrow> m \<le> 15 \<Longrightarrow> modifiers_of (new_KeyboardEvent t k (Some m) v) = m"
  by (simp add: modifiers_of_new_KeyboardEvent take_bit_int_eq_self)

lemma or_bits:
  "bit (bitor (bitor (bitor (if a then ALT_KEY else 0) (if c then CTRL_KEY else 0))
     (if m then META_KEY else 0)) (if s then SHIFT_KEY else 0)) 0 = a"
  "bit (bitor (bitor (bitor (if a then ALT_KEY else 0) (if c then CTRL_KEY else 0))
     (if m then META_KEY else 0)) (if s then SHIFT_KEY else 0)) 1 = c"
  "bit (bitor (bitor (bitor (if a then ALT_KEY else 0) (if c then CTRL_KEY else 0))
     (if m then META_KEY else 0)) (if s then SHIFT_KEY else 0)) 2 = m"
  "bit (bitor (bitor (bitor (if a then ALT_KEY else 0) (if c then CTRL_KEY else 0))
     (if m then META_KEY else 0)) (if s then SHIFT_KEY else 0)) 3 = s"
  by (cases a; cases c; cases m; cases s;
      simp add: bitor_def modifier_bits ToInt32_def)+

lemma recombined_bits:
  "bit (modifiers_of e) 0 = altKey e"
  "bit (modifiers_of e) 1 = ctrlKey e"
  "bit (modifiers_of e) 2 = metaKey e"
  "bit (modifiers_of e) 3 = shiftKey e"
  unfolding modifiers_of_def by (rule or_bits)+

lemma clone_flags:
  "altKey (KeyboardEvent_clone e t') = altKey e"
  "ctrlKey (KeyboardEvent_clone e t') = ctrlKey e"
  "metaKey (KeyboardEvent_clone e t') = metaKey e"
  "shiftKey (KeyboardEvent_clone e t') = shiftKey e"
  by (simp_all only: KeyboardEvent_clone_def flags_bits recombined_bits)

lemma modifiers_of_clone: "modifiers_of (KeyboardEvent_clone e t') = modifiers_of e"
  by (simp add: modifiers_of_def clone_flags)

lemma fromDomEvent_flags:
  "altKey (KeyboardEvent_fromDomEvent t k v) = ToBoolean (js_get k ''altKey'')"
  "ctrlKey (KeyboardEvent_fromDomEvent t k v) = ToBoolean (js_get k ''ctrlKey'')"
  "metaKey (KeyboardEvent_fromDomEvent t k v) = ToBoolean (js_get k ''metaKey'')"
  "shiftKey (KeyboardEvent_fromDomEvent t k v) = ToBoolean (js_get k ''shiftKey'')"
  by (simp_all only: KeyboardEvent_fromDomEvent_def Let_def flags_bits or_bits)

lemma fromDomEvent_rest:
  "keyCode (KeyboardEvent_fromDomEvent t k v) = js_get k ''keyCode''"
  "k_type (KeyboardEvent_fromDomEvent t k v) = Undefined"
  "inputValue (KeyboardEvent_fromDomEvent t k v) = v"
  by (simp_all add: KeyboardEvent_fromDomEvent_def Let_def new_KeyboardEvent_def)

lemma js_get_absent: "obj name = None \<Longrightarrow> js_get obj name = Undefined"
  by (simp add: js_get_def)

section \<open>KeyboardEvent: the claims\<close>

text \<open>
  Claim C5. For every modifier bitmask \<open>m\<close> with \<open>0 \<le> m \<le> 15\<close>, a KeyboardEvent
  constructed with mask \<open>m\<close> and then cloned (with or without a type override) has four
  flags that recombine to exactly \<open>m\<close>, and each flag of the clone equals the same flag
  of the source.
\<close>

theorem KeyboardEvent_clone_keeps_modifiers:
  assumes "0 \<le> m" and "m \<le> 15"
  shows "modifiers_of (KeyboardEvent_clone (new_KeyboardEvent t k (Some m) v) t') = m
    \<and> altKey (KeyboardEvent_clone (new_KeyboardEvent t k (Some m) v) t')
        = altKey (new_KeyboardEvent t k (Some m) v)
    \<and> ctrlKey (KeyboardEvent_clone (new_KeyboardEvent t k (Some m) v) t')
        = ctrlKey (new_KeyboardEvent t k (Some m) v)
    \<and> metaKey (KeyboardEvent_clone (new_KeyboardEvent t k (Some m) v) t')
        = metaKey (new_KeyboardEvent t k (Some m) v)
    \<and> shiftKey (KeyboardEvent_clone (new_KeyboardEvent t k (Some m) v) t')
        = shiftKey (new_KeyboardEvent t k (Some m) v)"
  using assms by (simp add: modifiers_of_clone clone_flags modifiers_of_in_range)

text \<open>The mask \<open>ALT_KEY | SHIFT_KEY = 9\<close> of the spec's example, cloned as \<open>keyup\<close>.\<close>

theorem KeyboardEvent_clone_keeps_modifiers_witness:
  "(0::int) \<le> 9 \<and> (9::int) \<le> 15
   \<and> modifiers_of (KeyboardEvent_clone
        (new_KeyboardEvent (Str ''keydown'') (Num 13) (Some 9) (Str ''hello''))
        (Str ''keyup'')) = 9
   \<and> altKey (KeyboardEvent_clone
        (new_KeyboardEvent (Str ''keydown'') (Num 13) (Some 9) (Str ''hello''))
        (Str ''keyup'')) = True
   \<and> ctrlKey (KeyboardEvent_clone
        (new_KeyboardEvent (Str ''keydown'') (Num 13) (Some 9) (Str ''hello''))
        (Str ''keyup'')) = False
   \<and> metaKey (KeyboardEvent_clone
        (new_KeyboardEvent (Str ''keydown'') (Num 13) (Some 9) (Str ''hello''))
        (Str ''keyup'')) = False
   \<and> shiftKey (KeyboardEvent_clone
        (new_KeyboardEvent (Str ''keydown'') (Num 13) (Some 9) (Str ''hello''))
        (Str ''keyup'')) = True"
  using KeyboardEvent_clone_keeps_modifiers
          [of 9 "Str ''keydown''" "Num 13" "Str ''hello''" "Str ''keyup''"]
  by (simp add: flags_bits)

text \<open>
  Claim C7. For every key-info object \<open>k\<close>, whatever its \<open>altKey\<close>, \<open>ctrlKey\<close>,
  \<open>metaKey\<close> and \<open>shiftKey\<close> properties hold, \<open>KeyboardEvent.fromDomEvent(type, k,
  inputValue)\<close> returns an event whose flags are true exactly for the truthy properties
  of \<open>k\<close>, an absent property counting as false; its \<open>keyCode\<close> is the one read from
  \<open>k\<close>, and its \<open>type\<close> is unset whatever the \<open>type\<close> argument was.
\<close>

theorem KeyboardEvent_fromDomEvent_reads_keys:
  "altKey (KeyboardEvent_fromDomEvent t k v) = ToBoolean (js_get k ''altKey'')
   \<and> ctrlKey (KeyboardEvent_fromDomEvent t k v) = ToBoolean (js_get k ''ctrlKey'')
   \<and> metaKey (KeyboardEvent_fromDomEvent t k v) = ToBoolean (js_get k ''metaKey'')
   \<and> shiftKey (KeyboardEvent_fromDomEvent t k v) = ToBoolean (js_get k ''shiftKey'')
   \<and> (k ''altKey'' = None \<longrightarrow> altKey (KeyboardEvent_fromDomEvent t k v) = False)
   \<and> (k ''ctrlKey'' = None \<longrightarrow> ctrlKey (KeyboardEvent_fromDomEvent t k v) = False)
   \<and> (k ''metaKey'' = None \<longrightarrow> metaKey (KeyboardEvent_fromDomEvent t k v) = False)
   \<and> (k ''shiftKey'' = None \<longrightarrow> shiftKey (KeyboardEvent_fromDomEvent t k v) = False)
   \<and> keyCode (KeyboardEvent_fromDomEvent t k v) = js_get k ''keyCode''
   \<and> k_type (KeyboardEvent_fromDomEvent t k v) = Undefined"
  by (simp add: fromDomEvent_flags fromDomEvent_rest js_get_absent)

text \<open>
  A key-info object with a truthy, a falsy and two absent modifier properties, converted
  with type argument \<open>keydown\<close>: \<open>{ctrlKey: 1, metaKey: "", keyCode: 13}\<close>.
\<close>

theorem KeyboardEvent_fromDomEvent_reads_keys_witness:
  "[''ctrlKey'' \<mapsto> Num 1, ''metaKey'' \<mapsto> Str [], ''keyCode'' \<mapsto> Num 13] ''altKey'' = None
   \<and> [''ctrlKey'' \<mapsto> Num 1, ''metaKey'' \<mapsto> Str [], ''keyCode'' \<mapsto> Num 13] ''shiftKey'' = None
   \<and> KeyboardEvent_fromDomEvent (Str ''keydown'')
        [''ctrlKey'' \<mapsto> Num 1, ''metaKey'' \<mapsto> Str [], ''keyCode'' \<mapsto> Num 13] Undefined
      = \<lparr> k_type = Undefined, keyCode = Num 13, inputValue = Undefined,
          altKey = False, ctrlKey = True, metaKey = False, shiftKey = False \<rparr>"
  using KeyboardEvent_fromDomEvent_reads_keys
          [of "Str ''keydown''"
              "[''ctrlKey'' \<mapsto> Num 1, ''metaKey'' \<mapsto> Str [], ''keyCode'' \<mapsto> Num 13]"
              Undefined]
  by (simp add: js_get_def fromDomEvent_rest)

text \<open>
  Claim C9. For every type and keyCode, a KeyboardEvent constructed with the modifiers
  argument omitted has \<open>altKey\<close>, \<open>ctrlKey\<close>, \<open>metaKey\<close> and \<open>shiftKey\<close> all false, and
  is the event that passing \<open>NO_MODIFIER\<close> constructs.
\<close>

theorem KeyboardEvent_modifiers_default:
  "altKey (new_KeyboardEvent t k None v) = False
   \<and> ctrlKey (new_KeyboardEvent t k None v) = False
   \<and> metaKey (new_KeyboardEvent t k None v) = False
   \<and> shiftKey (new_KeyboardEvent t k None v) = False
   \<and> new_KeyboardEvent t k None v = new_KeyboardEvent t k (Some NO_MODIFIER) v"
  by (simp add: new_KeyboardEvent_def bitand_def ToInt32_opt_def NO_MODIFIER_def ToInt32_def)

section \<open>Facts about PointerEvents\<close>

lemma produced_aliases: "produced p \<Longrightarrow> aliases_agree p"
  by (induction rule: produced.induct) (simp_all add: aliases_agree_def new_PointerEvent_def)

text \<open>On an event whose aliases agree, \<open>clone\<close> rewrites the type field and nothing else.\<close>

lemma clone_eq:
  assumes "aliases_agree p"
  shows "PointerEvent_clone p t = p\<lparr>p_type := logical_or t (p_type p)\<rparr>"
  using assms
  by (simp add: PointerEvent_clone_def new_PointerEvent_def Let_def aliases_agree_def)

text \<open>Every operation of the module returns a produced event.\<close>

lemma produced_operations:
  "produced (PointerEvent_fromDomEvent t off ox oy)"
  "produced (PointerEvent_fromDomMouseEvent m ox oy)"
  "produced (PointerEvent_fromDomTouch tp te ox oy)"
  "produced p \<Longrightarrow> produced (PointerEvent_clone p t')"
  by (simp_all add: PointerEvent_fromDomEvent_def PointerEvent_fromDomMouseEvent_def
        PointerEvent_fromDomTouch_def Let_def clone_eq produced_aliases produced.intros)

text \<open>Conversely, agreeing aliases are all that a produced event is constrained by.\<close>

lemma produced_iff: "produced p = aliases_agree p"
proof
  assume "aliases_agree p"
  then have "p = (new_PointerEvent (p_type p) (stageX p) (stageY p) (clientX p) (clientY p))
    \<lparr> deltaX := deltaX p, deltaY := deltaY p, diffX := diffX p, diffY := diffY p,
      isLeft := isLeft p, isRight := isRight p, isMiddle := isMiddle p,
      touchId := touchId p, touchIndex := touchIndex p \<rparr>"
    by (simp add: aliases_agree_def new_PointerEvent_def)
  moreover have "produced \<dots>"
    by (intro produced.intros)
  ultimately show "produced p" by simp
qed (rule produced_aliases)

text \<open>This equation is how \<open>produced\<close> is evaluated.\<close>

declare produced_iff [code]

text \<open>The scan of \<open>indexOf\<close>, started at position \<open>k\<close>.\<close>

lemma indexOf_from_found:
  "i < length ts \<Longrightarrow> ref (ts ! i) = ref p \<Longrightarrow> (\<forall>j<i. ref (ts ! j) \<noteq> ref p)
    \<Longrightarrow> indexOf_from k ts p = int (k + i)"
proof (induction ts arbitrary: k i)
  case Nil
  then show ?case by simp
next
  case (Cons e es)
  show ?case
  proof (cases i)
    case 0
    with Cons.prems show ?thesis by (simp add: strict_equals_def)
  next
    case (Suc i')
    with Cons.prems have "ref e \<noteq> ref p" by auto
    moreover have "indexOf_from (Suc k) es p = int (Suc k + i')"
      using Cons.prems Suc by (intro Cons.IH) auto
    ultimately show ?thesis using Suc by (simp add: strict_equals_def)
  qed
qed

lemma indexOf_from_absent:
  "ref p \<notin> ref ` set ts \<Longrightarrow> indexOf_from k ts p = - 1"
  by (induction ts arbitrary: k) (auto simp add: strict_equals_def)

text \<open>The table on its five keys, and on a name that is no property of the table object.\<close>

lemma eventTypeMap_known:
  "js_get eventTypeMap ''mouseup'' = Str ''pointerup''"
  "js_get eventTypeMap ''mousedown'' = Str ''pointerdown''"
  "js_get eventTypeMap ''mousemove'' = Str ''pointermove''"
  "js_get eventTypeMap ''mouseover'' = Str ''mouseover''"
  "js_get eventTypeMap ''mouseout'' = Str ''mouseout''"
  by (simp_all add: js_get_def eventTypeMap_def object_literal_def)

lemma eventTypeMap_unknown:
  assumes "raw \<notin> {''mouseup'', ''mousedown'', ''mousemove'', ''mouseover'', ''mouseout''}"
    and "raw \<notin> dom Object_prototype"
  shows "js_get eventTypeMap raw = Undefined"
  using assms
  by (auto simp add: js_get_def eventTypeMap_def object_literal_def map_add_def dom_def
        split: option.splits)

lemma fromDomMouseEvent_type:
  "p_type (PointerEvent_fromDomMouseEvent m ox oy) = js_get eventTypeMap (m_type m)"
  by (simp add: PointerEvent_fromDomMouseEvent_def Let_def new_PointerEvent_def)

section \<open>PointerEvent: the claims\<close>

text \<open>
  Claim C1, as amended. The claim reads: the event returned by
  \<open>PointerEvent.fromDomEvent\<close> has its \<open>type\<close> equal to the given type argument. The
  source hands the constructor \<open>undefined\<close> and never reads the argument, as
  \<open>KeyboardEvent.fromDomEvent\<close> and \<open>PointerEvent.fromDomTouch\<close> do. What holds: for
  every type argument, offset record and stage origin, the returned event's \<open>type\<close> is
  unset.
\<close>

theorem PointerEvent_fromDomEvent_type_unset:
  "p_type (PointerEvent_fromDomEvent t off ox oy) = Undefined"
  by (simp add: PointerEvent_fromDomEvent_def new_PointerEvent_def Let_def)

text \<open>
  The claim as it stands fails at type argument \<open>click\<close>, offsets (150, 80) and stage
  origin (50, 20): the result's type is not \<open>click\<close>.
\<close>

theorem PointerEvent_fromDomEvent_type_counterexample:
  "p_type (PointerEvent_fromDomEvent (Str ''click'') \<lparr>clientX = 150::int, clientY = 80\<rparr> 50 20)
     \<noteq> Str ''click''"
  by (simp add: PointerEvent_fromDomEvent_def new_PointerEvent_def Let_def)

text \<open>
  Claim C2. Every PointerEvent returned by direct construction, \<open>fromDomEvent\<close>,
  \<open>fromDomMouseEvent\<close>, \<open>fromDomTouch\<close> or \<open>clone\<close> has \<open>stageX\<close> equal to \<open>x\<close> and
  \<open>stageY\<close> equal to \<open>y\<close>. For \<open>clone\<close> this holds whatever the cloned record is.
\<close>

theorem PointerEvent_aliases_agree:
  "aliases_agree (new_PointerEvent t sx sy cx cy)
   \<and> aliases_agree (PointerEvent_fromDomEvent t off ox oy)
   \<and> aliases_agree (PointerEvent_fromDomMouseEvent m ox oy)
   \<and> aliases_agree (PointerEvent_fromDomTouch tp te ox oy)
   \<and> aliases_agree (PointerEvent_clone p t')"
  by (simp add: aliases_agree_def new_PointerEvent_def PointerEvent_fromDomEvent_def
        PointerEvent_fromDomMouseEvent_def PointerEvent_fromDomTouch_def
        PointerEvent_clone_def Let_def)

text \<open>
  Claim C3. For every touch point \<open>p\<close> and parent touch event \<open>e\<close>,
  \<open>PointerEvent.fromDomTouch(p, e, ox, oy)\<close> sets \<open>touchIndex\<close> to the zero-based
  position of the first element of \<open>e.touches\<close> that is the object \<open>p\<close> itself; when no
  element of \<open>e.touches\<close> is \<open>p\<close>, \<open>touchIndex\<close> is -1 and the event is returned all the
  same.
\<close>

theorem PointerEvent_fromDomTouch_touchIndex:
  "(\<forall>i. i < length (touches e) \<and> ref (touches e ! i) = ref p
         \<and> (\<forall>j<i. ref (touches e ! j) \<noteq> ref p)
      \<longrightarrow> touchIndex (PointerEvent_fromDomTouch p e ox oy) = Num (int i))
   \<and> (ref p \<notin> ref ` set (touches e)
      \<longrightarrow> touchIndex (PointerEvent_fromDomTouch p e ox oy) = Num (- 1))"
proof -
  have "indexOf (touches e) p = int i"
    if "i < length (touches e)" "ref (touches e ! i) = ref p"
       "\<forall>j<i. ref (touches e ! j) \<noteq> ref p" for i
    using indexOf_from_found [OF that, of 0] by (simp add: indexOf_def)
  moreover have "indexOf (touches e) p = - 1" if "ref p \<notin> ref ` set (touches e)"
    using that by (simp add: indexOf_def indexOf_from_absent)
  ultimately show ?thesis
    by (simp add: PointerEvent_fromDomTouch_def Let_def)
qed

text \<open>
  A touch list of three points at addresses 10, 11 and 12. The point at address 12 is
  the third element and gets index 2; a point at address 99 with the coordinates and
  the identifier of the third element is no element of the list and gets -1.
\<close>

theorem PointerEvent_fromDomTouch_touchIndex_witness:
  "touchIndex (PointerEvent_fromDomTouch
        \<lparr>clientX = 30::int, clientY = 40, ref = 12, t_identifier = Num 2\<rparr>
        \<lparr>touches =
          [\<lparr>clientX = 10, clientY = 20, ref = 10, t_identifier = Num 0\<rparr>,
           \<lparr>clientX = 15, clientY = 25, ref = 11, t_identifier = Num 1\<rparr>,
           \<lparr>clientX = 30, clientY = 40, ref = 12, t_identifier = Num 2\<rparr>]\<rparr> 5 5) = Num 2
   \<and> touchIndex (PointerEvent_fromDomTouch
        \<lparr>clientX = 30::int, clientY = 40, ref = 99, t_identifier = Num 2\<rparr>
        \<lparr>touches =
          [\<lparr>clientX = 10, clientY = 20, ref = 10, t_identifier = Num 0\<rparr>,
           \<lparr>clientX = 15, clientY = 25, ref = 11, t_identifier = Num 1\<rparr>,
           \<lparr>clientX = 30, clientY = 40, ref = 12, t_identifier = Num 2\<rparr>]\<rparr> 5 5) = Num (- 1)"
proof -
  let ?a = "\<lparr>clientX = 10::int, clientY = 20, ref = 10, t_identifier = Num 0\<rparr>"
  let ?b = "\<lparr>clientX = 15::int, clientY = 25, ref = 11, t_identifier = Num 1\<rparr>"
  let ?c = "\<lparr>clientX = 30::int, clientY = 40, ref = 12, t_identifier = Num 2\<rparr>"
  let ?d = "\<lparr>clientX = 30::int, clientY = 40, ref = 99, t_identifier = Num 2\<rparr>"
  let ?e = "\<lparr>touches = [?a, ?b, ?c]\<rparr>"
  have third: "2 < length (touches ?e) \<and> ref (touches ?e ! 2) = ref ?c
      \<and> (\<forall>j<2. ref (touches ?e ! j) \<noteq> ref ?c)"
    by (simp add: less_Suc_eq numeral_2_eq_2)
  have stranger: "ref ?d \<notin> ref ` set (touches ?e)"
    by simp
  have "touchIndex (PointerEvent_fromDomTouch ?c ?e 5 5) = Num (int 2)"
    using PointerEvent_fromDomTouch_touchIndex [of ?e ?c 5 5] third by blast
  moreover have "touchIndex (PointerEvent_fromDomTouch ?d ?e 5 5) = Num (- 1)"
    using PointerEvent_fromDomTouch_touchIndex [of ?e ?d 5 5] stranger by blast
  ultimately show ?thesis by simp
qed

text \<open>
  Claim C4. For every mouse event record \<open>m\<close>, \<open>PointerEvent.fromDomMouseEvent(m, ox,
  oy)\<close> sets \<open>type\<close> to the table's image of \<open>m.type\<close>, and to \<open>undefined\<close> for every
  raw type outside the table's five keys. The table is an object literal, and the source
  reads it with \<open>eventTypeMap[domEvent.type]\<close>, which also finds the properties the
  literal inherits: at raw type \<open>constructor\<close> the event's \<open>type\<close> is the function
  \<open>Object\<close>, neither \<open>undefined\<close> nor the string that the constructor documents. The
  five keys and the names that are no inherited property behave as claimed
  (\<open>eventTypeMap_known\<close>, \<open>eventTypeMap_unknown\<close>).
\<close>

theorem PointerEvent_fromDomMouseEvent_inherited_name:
  "p_type (PointerEvent_fromDomMouseEvent
      \<lparr>clientX = 150::int, clientY = 80, m_type = ''constructor''\<rparr> 50 20)
     = Function ''Object''"
  by (simp add: fromDomMouseEvent_type js_get_def eventTypeMap_def object_literal_def
        Object_prototype_def)

text \<open>
  Claim C6, as amended. The claim reads: \<open>p.clone()\<close> preserves \<open>type\<close>, and
  \<open>p.clone(t)\<close> with a type argument sets only \<open>type\<close> to \<open>t\<close>. The source computes the
  new type as \<open>type || this.type\<close>, so an argument that is given but falsy does not
  replace the type. What holds: for every produced PointerEvent \<open>p\<close>, whatever was stored
  in its optional fields, and for every type argument \<open>t\<close>, the clone equals \<open>p\<close> in
  \<open>stageX\<close>/\<open>x\<close>, \<open>stageY\<close>/\<open>y\<close>, \<open>clientX\<close>, \<open>clientY\<close> and all of the delta, diff,
  button and touch fields, unset ones staying unset; \<open>p.clone()\<close> preserves \<open>type\<close> and
  so equals \<open>p\<close> in every field, \<open>p.clone(t)\<close> with a truthy \<open>t\<close> has type \<open>t\<close>, and
  \<open>p.clone(t)\<close> with a \<open>t\<close> that is given but falsy has the source's type.
\<close>

theorem PointerEvent_clone_frame:
  assumes "produced p"
  shows "PointerEvent_clone p Undefined = p
    \<and> PointerEvent_clone p t = p\<lparr>p_type := (if ToBoolean t then t else p_type p)\<rparr>
    \<and> (ToBoolean t \<longrightarrow> PointerEvent_clone p t = p\<lparr>p_type := t\<rparr>)
    \<and> (\<not> ToBoolean t \<longrightarrow> PointerEvent_clone p t = p)"
proof -
  have agree: "aliases_agree p"
    using assms by (rule produced_aliases)
  have every: "PointerEvent_clone p u = p\<lparr>p_type := (if ToBoolean u then u else p_type p)\<rparr>"
    for u
    using clone_eq [OF agree, of u] by (simp add: logical_or_def)
  have "PointerEvent_clone p Undefined = p"
    using every [of Undefined] by simp
  moreover have "PointerEvent_clone p t = p" if "\<not> ToBoolean t"
    using every [of t] that by simp
  moreover have "PointerEvent_clone p t = p\<lparr>p_type := t\<rparr>" if "ToBoolean t"
    using every [of t] that by simp
  ultimately show ?thesis
    using every [of t] by blast
qed

text \<open>
  A \<open>pointermove\<close> event with \<open>deltaX\<close> and \<open>isLeft\<close> assigned after construction,
  cloned as \<open>dragend\<close> and cloned with the empty string.
\<close>

theorem PointerEvent_clone_frame_witness:
  "produced ((new_PointerEvent (Str ''pointermove'') (100::int) 60 150 80)
               \<lparr>deltaX := Num 3, isLeft := Bool True\<rparr>)
   \<and> ToBoolean (Str ''dragend'')
   \<and> PointerEvent_clone
        ((new_PointerEvent (Str ''pointermove'') (100::int) 60 150 80)
           \<lparr>deltaX := Num 3, isLeft := Bool True\<rparr>) (Str ''dragend'')
      = \<lparr> clientX = 150, clientY = 80, p_type = Str ''dragend'',
          stageX = 100, p_x = 100, stageY = 60, p_y = 60,
          deltaX = Num 3, deltaY = Undefined, diffX = Undefined, diffY = Undefined,
          isLeft = Bool True, isRight = Undefined, isMiddle = Undefined,
          touchId = Undefined, touchIndex = Undefined \<rparr>
   \<and> \<not> ToBoolean (Str [])
   \<and> PointerEvent_clone
        ((new_PointerEvent (Str ''pointermove'') (100::int) 60 150 80)
           \<lparr>deltaX := Num 3, isLeft := Bool True\<rparr>) (Str [])
      = \<lparr> clientX = 150, clientY = 80, p_type = Str ''pointermove'',
          stageX = 100, p_x = 100, stageY = 60, p_y = 60,
          deltaX = Num 3, deltaY = Undefined, diffX = Undefined, diffY = Undefined,
          isLeft = Bool True, isRight = Undefined, isMiddle = Undefined,
          touchId = Undefined, touchIndex = Undefined \<rparr>"
proof -
  have h: "produced ((new_PointerEvent (Str ''pointermove'') (100::int) 60 150 80)
               \<lparr>deltaX := Num 3, isLeft := Bool True\<rparr>)"
    by (intro produced.intros)
  have truthy: "ToBoolean (Str ''dragend'')" and falsy: "\<not> ToBoolean (Str [])"
    by simp_all
  show ?thesis
    using h truthy falsy
      PointerEvent_clone_frame [OF h, of "Str ''dragend''"]
      PointerEvent_clone_frame [OF h, of "Str []"]
    by (simp add: new_PointerEvent_def)
qed

text \<open>
  The claim as it stands fails at the empty string, which is a type argument: the clone
  of a \<open>pointermove\<close> event keeps \<open>pointermove\<close>.
\<close>

theorem PointerEvent_clone_empty_type_counterexample:
  "p_type (PointerEvent_clone (new_PointerEvent (Str ''pointermove'') (100::int) 60 150 80)
      (Str [])) \<noteq> Str []"
  by (simp add: PointerEvent_clone_def new_PointerEvent_def Let_def logical_or_def)

text \<open>
  Claim C8. For all stage origins \<open>(ox, oy)\<close> and every offset record, whose client
  coordinates are \<open>(cx, cy)\<close>, \<open>PointerEvent.fromDomEvent\<close> returns an event with
  \<open>stageX = cx - ox\<close>, \<open>stageY = cy - oy\<close>, \<open>clientX = cx\<close>, \<open>clientY = cy\<close>, and
  with \<open>x\<close> equal to \<open>stageX\<close> and \<open>y\<close> equal to \<open>stageY\<close>.
\<close>

theorem PointerEvent_fromDomEvent_coordinates:
  "stageX (PointerEvent_fromDomEvent t off ox oy) = clientX off - ox
   \<and> stageY (PointerEvent_fromDomEvent t off ox oy) = clientY off - oy
   \<and> clientX (PointerEvent_fromDomEvent t off ox oy) = clientX off
   \<and> clientY (PointerEvent_fromDomEvent t off ox oy) = clientY off
   \<and> p_x (PointerEvent_fromDomEvent t off ox oy)
       = stageX (PointerEvent_fromDomEvent t off ox oy)
   \<and> p_y (PointerEvent_fromDomEvent t off ox oy)
       = stageY (PointerEvent_fromDomEvent t off ox oy)"
  by (simp add: PointerEvent_fromDomEvent_def new_PointerEvent_def Let_def)

section \<open>Both classes: overriding the type in \<open>clone\<close>\<close>

text \<open>
  Claim C10. For every KeyboardEvent and every PointerEvent, \<open>clone\<close> called with a
  type override that is given but falsy, such as the empty string, returns an event
  whose \<open>type\<close> is the source's \<open>type\<close> and not the override: \<open>clone\<close> tells overrides
  apart by truthiness, not by presence.
\<close>

theorem clone_falsy_override_keeps_type:
  assumes "\<not> ToBoolean t"
  shows "k_type (KeyboardEvent_clone e t) = k_type e
    \<and> p_type (PointerEvent_clone p t) = p_type p"
  using assms
  by (simp add: KeyboardEvent_clone_def new_KeyboardEvent_def PointerEvent_clone_def
        new_PointerEvent_def Let_def logical_or_def)

text \<open>A \<open>keydown\<close> and a \<open>pointermove\<close> event, each cloned with override \<open>""\<close>.\<close>

theorem clone_falsy_override_keeps_type_witness:
  "\<not> ToBoolean (Str [])
   \<and> k_type (KeyboardEvent_clone
        (new_KeyboardEvent (Str ''keydown'') (Num 13) (Some 9) (Str ''hello'')) (Str []))
      = Str ''keydown''
   \<and> p_type (PointerEvent_clone
        (new_PointerEvent (Str ''pointermove'') (100::int) 60 150 80) (Str []))
      = Str ''pointermove''"
proof -
  have falsy: "\<not> ToBoolean (Str [])"
    by simp
  show ?thesis
    using falsy
      clone_falsy_override_keeps_type
        [OF falsy,
         of "new_KeyboardEvent (Str ''keydown'') (Num 13) (Some 9) (Str ''hello'')"
            "new_PointerEvent (Str ''pointermove'') (100::int) 60 150 80"]
    by (simp add: new_KeyboardEvent_def new_PointerEvent_def)
qed

end
